theory Spec2Isabelle
  imports Main "HOL-Library.AList" "HOL-Library.Sublist"
begin

section \<open>Exceptions\<close>

text \<open>
  Modelled from the spec: the package's exceptions module, which declares
  \<open>SeleniumRespectfulError\<close> and \<open>SeleniumRespectfulRateLimitedError\<close>. They are two
  separate kinds of failure, neither a case of the other (the rate-limited error is the
  one kind the waiting loop catches), and each carries its message.

  Every other exception the driver can raise is a value as well: the Python built-ins
  that the driver's own expressions raise (a missing dictionary key, a subscript on
  \<open>None\<close>, ...), \<open>ResponseError\<close> for the store refusing a command, and
  \<open>WebDriverException\<close> for whatever the gated call itself raises.
\<close>

datatype error =
    SeleniumRespectfulError string
  | SeleniumRespectfulRateLimitedError string
  | KeyError string
  | ValueError
  | TypeError
  | AttributeError
  | IndexError
  | OSError
  | YAMLError
  | ResponseError
  | WebDriverException string

section \<open>Integers as the store keeps them\<close>

text \<open>
  The store keeps bytes. The client writes an integer as its decimal text
  (\<open>str(n)\<close>), and \<open>realm_max_requests\<close> and \<open>realm_timespan\<close> read it back with
  \<open>int(...)\<close>, which raises \<open>ValueError\<close> on text that is not a number. The reader
  modelled here accepts an optional sign followed by one or more ASCII digits.
\<close>

definition digit_char :: "nat \<Rightarrow> char" where
  "digit_char d = char_of (48 + d)"

definition digit_val :: "char \<Rightarrow> nat option" where
  "digit_val c =
     (if 48 \<le> (of_char c :: nat) \<and> (of_char c :: nat) \<le> 57
      then Some (of_char c - 48) else None)"

fun le_digits :: "nat \<Rightarrow> string" where
  "le_digits n =
     (if n < 10 then [digit_char n] else digit_char (n mod 10) # le_digits (n div 10))"

declare le_digits.simps [simp del]

fun nat_of_le_digits :: "string \<Rightarrow> nat option" where
  "nat_of_le_digits [] = Some 0"
| "nat_of_le_digits (c # cs) =
     (case digit_val c of
        None \<Rightarrow> None
      | Some d \<Rightarrow> (case nat_of_le_digits cs of None \<Rightarrow> None | Some n \<Rightarrow> Some (d + 10 * n)))"

definition nat_of_digits :: "string \<Rightarrow> nat option" where
  "nat_of_digits s = (if s = [] then None else nat_of_le_digits (rev s))"

definition py_str_int :: "int \<Rightarrow> string" where
  "py_str_int i =
     (if i < 0 then CHR ''-'' # rev (le_digits (nat (- i))) else rev (le_digits (nat i)))"

definition py_int :: "string \<Rightarrow> error + int" where
  "py_int s =
     (case s of
        [] \<Rightarrow> Inl ValueError
      | c # cs \<Rightarrow>
          if c = CHR ''-'' then
            (case nat_of_digits cs of None \<Rightarrow> Inl ValueError | Some n \<Rightarrow> Inr (- int n))
          else if c = CHR ''+'' then
            (case nat_of_digits cs of None \<Rightarrow> Inl ValueError | Some n \<Rightarrow> Inr (int n))
          else
            (case nat_of_digits s of None \<Rightarrow> Inl ValueError | Some n \<Rightarrow> Inr (int n)))"

section \<open>The shared store\<close>

text \<open>
  One Redis database: a keyspace in which every key holds one value of one type. A hash
  is a list of field/value pairs, a set is a set of members, and a string key carries its
  remaining time to live in seconds. A command on a key of the wrong type is refused by
  the store (\<open>ResponseError\<close>), and so is \<open>SETEX\<close> with a time that is not positive.
\<close>

datatype rvalue =
    RHash "(string \<times> string) list"
  | RSet "string set"
  | RString string int

type_synonym redis_db = "(string \<times> rvalue) list"

definition hexists :: "redis_db \<Rightarrow> string \<Rightarrow> string \<Rightarrow> error + bool" where
  "hexists db name field =
     (case map_of db name of
        None \<Rightarrow> Inr False
      | Some (RHash h) \<Rightarrow> Inr (map_of h field \<noteq> None)
      | Some _ \<Rightarrow> Inl ResponseError)"

definition hset :: "redis_db \<Rightarrow> string \<Rightarrow> string \<Rightarrow> string \<Rightarrow> error + redis_db" where
  "hset db name field v =
     (case map_of db name of
        None \<Rightarrow> Inr (AList.update name (RHash [(field, v)]) db)
      | Some (RHash h) \<Rightarrow> Inr (AList.update name (RHash (AList.update field v h)) db)
      | Some _ \<Rightarrow> Inl ResponseError)"

definition hmset :: "redis_db \<Rightarrow> string \<Rightarrow> (string \<times> string) list \<Rightarrow> error + redis_db" where
  "hmset db name mapping =
     (case map_of db name of
        None \<Rightarrow> Inr (AList.update name (RHash (foldl (\<lambda>h (f, v). AList.update f v h) [] mapping)) db)
      | Some (RHash h) \<Rightarrow>
          Inr (AList.update name (RHash (foldl (\<lambda>h (f, v). AList.update f v h) h mapping)) db)
      | Some _ \<Rightarrow> Inl ResponseError)"

definition hgetall :: "redis_db \<Rightarrow> string \<Rightarrow> error + (string \<times> string) list" where
  "hgetall db name =
     (case map_of db name of
        None \<Rightarrow> Inr []
      | Some (RHash h) \<Rightarrow> Inr h
      | Some _ \<Rightarrow> Inl ResponseError)"

definition sadd :: "redis_db \<Rightarrow> string \<Rightarrow> string \<Rightarrow> error + redis_db" where
  "sadd db name member =
     (case map_of db name of
        None \<Rightarrow> Inr (AList.update name (RSet {member}) db)
      | Some (RSet ms) \<Rightarrow> Inr (AList.update name (RSet (insert member ms)) db)
      | Some _ \<Rightarrow> Inl ResponseError)"

text \<open>A set that loses its last member is removed from the keyspace.\<close>

definition srem :: "redis_db \<Rightarrow> string \<Rightarrow> string \<Rightarrow> error + redis_db" where
  "srem db name member =
     (case map_of db name of
        None \<Rightarrow> Inr db
      | Some (RSet ms) \<Rightarrow>
          Inr (if ms - {member} = {} then AList.delete name db
               else AList.update name (RSet (ms - {member})) db)
      | Some _ \<Rightarrow> Inl ResponseError)"

definition smembers :: "redis_db \<Rightarrow> string \<Rightarrow> error + string set" where
  "smembers db name =
     (case map_of db name of
        None \<Rightarrow> Inr {}
      | Some (RSet ms) \<Rightarrow> Inr ms
      | Some _ \<Rightarrow> Inl ResponseError)"

definition setex :: "redis_db \<Rightarrow> string \<Rightarrow> int \<Rightarrow> string \<Rightarrow> error + redis_db" where
  "setex db name time v =
     (if time \<le> 0 then Inl ResponseError else Inr (AList.update name (RString v time) db))"

definition delete_key :: "redis_db \<Rightarrow> string \<Rightarrow> redis_db" where
  "delete_key db name = AList.delete name db"

subsection \<open>Key patterns\<close>

text \<open>
  \<open>KEYS\<close> and \<open>SCAN ... MATCH\<close> select keys by a glob-style pattern: \<open>*\<close> stands for
  any run of characters, \<open>?\<close> for any one character, \<open>[...]\<close> for one character of a
  class (with \<open>^\<close> for the complement, \<open>a-z\<close> for a range, and a class that is never
  closed running to the end of the pattern), and a backslash makes the next character
  literal. \<open>glob_class\<close> reads the body of a class against the character \<open>c\<close>: whether
  \<open>c\<close> is in the class, and the pattern that follows the class.
\<close>

fun glob_class :: "string \<Rightarrow> char \<Rightarrow> bool \<times> string" where
  "glob_class [] c = (False, [])"
| "glob_class (p # ps) c =
     (if p = CHR 0x5C \<and> ps \<noteq> [] then
        (case glob_class (tl ps) c of (m, rest) \<Rightarrow> (hd ps = c \<or> m, rest))
      else if p = CHR '']'' then (False, ps)
      else if 2 \<le> length ps \<and> hd ps = CHR ''-'' then
        (let lo = min (of_char p :: nat) (of_char (ps ! 1));
             hi = max (of_char p :: nat) (of_char (ps ! 1))
         in case glob_class (drop 2 ps) c of
              (m, rest) \<Rightarrow> ((lo \<le> of_char c \<and> of_char c \<le> hi) \<or> m, rest))
      else (case glob_class ps c of (m, rest) \<Rightarrow> (p = c \<or> m, rest)))"

fun glob :: "string \<Rightarrow> string \<Rightarrow> bool" where
  "glob [] s = (s = [])"
| "glob (p # ps) [] = (p = CHR ''*'' \<and> glob ps [])"
| "glob (p # ps) (c # cs) =
     (if p = CHR ''*'' then glob ps (c # cs) \<or> glob (p # ps) cs
      else if p = CHR ''?'' then glob ps cs
      else if p = CHR ''['' then
        (let neg = (ps \<noteq> [] \<and> hd ps = CHR ''^'');
             body = (if neg then tl ps else ps)
         in case glob_class body c of
              (m, rest) \<Rightarrow> (if neg then \<not> m else m) \<and> glob rest cs)
      else if p = CHR 0x5C then
        (if ps \<noteq> [] then hd ps = c \<and> glob (tl ps) cs else p = c \<and> glob [] cs)
      else p = c \<and> glob ps cs)"

text \<open>The store's matcher answers for an empty key only when the pattern is empty too.\<close>

definition stringmatch :: "string \<Rightarrow> string \<Rightarrow> bool" where
  "stringmatch pattern s = (if s = [] then pattern = [] else glob pattern s)"

definition keys :: "redis_db \<Rightarrow> string \<Rightarrow> string list" where
  "keys db pattern = filter (stringmatch pattern) (map fst db)"

text \<open>
  One \<open>SCAN\<close> call from cursor 0 looks at no more than \<open>count\<close> keys and returns those
  among them that match.
\<close>

definition scan :: "redis_db \<Rightarrow> string \<Rightarrow> nat \<Rightarrow> string list" where
  "scan db pattern count = filter (stringmatch pattern) (map fst (take count db))"

text \<open>
  \<open>INFO\<close> lists a database under \<open>dbN\<close> only when it holds at least one key; the
  dictionary's \<open>get\<close> answers \<open>None\<close> for a database that is not listed.
\<close>

definition info_db_keys :: "redis_db \<Rightarrow> nat option" where
  "info_db_keys db = (if db = [] then None else Some (length db))"

section \<open>The driver\<close>

text \<open>
  \<open>redis_prefix\<close> is the namespace of every key the driver writes. A realm's definition
  is a hash at \<open>realm_redis_key\<close>, the index of registered realms is the set at
  \<open>realms_key\<close>, and a lease of a realm is a string key \<open>request_key\<close>; leases of a
  realm are looked up with the pattern \<open>request_pattern\<close>.
\<close>

definition redis_prefix :: string where
  "redis_prefix = ''SeleniumRequester''"

definition realm_redis_key :: "string \<Rightarrow> string" where
  "realm_redis_key realm = redis_prefix @ '':REALMS:'' @ realm"

definition realms_key :: string where
  "realms_key = redis_prefix @ '':REALMS''"

definition request_key :: "string \<Rightarrow> string \<Rightarrow> string" where
  "request_key realm request_uuid = redis_prefix @ '':REQUEST:'' @ realm @ '':'' @ request_uuid"

definition request_pattern :: "string \<Rightarrow> string" where
  "request_pattern realm = redis_prefix @ '':REQUEST:'' @ realm @ '':*''"

subsection \<open>Realm registry\<close>

text \<open>
  Each operation takes the store and returns its outcome together with the store it
  leaves behind: a command that was carried out before an exception stays carried out.
\<close>

definition register_realm :: "redis_db \<Rightarrow> string \<Rightarrow> int \<Rightarrow> int \<Rightarrow> (error + bool) \<times> redis_db" where
  "register_realm db realm max_requests timespan =
     (let redis_key = realm_redis_key realm in
      case hexists db redis_key ''max_requests'' of
        Inl e \<Rightarrow> (Inl e, db)
      | Inr True \<Rightarrow> (Inr True, db)
      | Inr False \<Rightarrow>
          (case hmset db redis_key
                  [(''max_requests'', py_str_int max_requests), (''timespan'', py_str_int timespan)] of
             Inl e \<Rightarrow> (Inl e, db)
           | Inr db1 \<Rightarrow>
               (case sadd db1 realms_key realm of
                  Inl e \<Rightarrow> (Inl e, db1)
                | Inr db2 \<Rightarrow> (Inr True, db2))))"

fun register_realms :: "redis_db \<Rightarrow> (string \<times> int \<times> int) list \<Rightarrow> (error + bool) \<times> redis_db" where
  "register_realms db [] = (Inr True, db)"
| "register_realms db ((realm, max_requests, timespan) # realm_tuples) =
     (case register_realm db realm max_requests timespan of
        (Inl e, db1) \<Rightarrow> (Inl e, db1)
      | (Inr _, db1) \<Rightarrow> register_realms db1 realm_tuples)"

text \<open>
  The keyword arguments of \<open>update_realm\<close> are Python values of any type; the update
  asks for \<open>type(v) == int\<close>, which holds of an \<open>int\<close> and of nothing else.
\<close>

datatype pyval = PNone | PBool bool | PInt int | PFloat string | PStr string

fun type_is_int :: "pyval \<Rightarrow> bool" where
  "type_is_int (PInt n) = True"
| "type_is_int _ = False"

fun encode :: "pyval \<Rightarrow> string" where
  "encode (PInt n) = py_str_int n"
| "encode (PStr s) = s"
| "encode (PFloat s) = s"
| "encode (PBool b) = (if b then ''True'' else ''False'')"
| "encode PNone = ''None''"

definition updatable_keys :: "string list" where
  "updatable_keys = [''max_requests'', ''timespan'']"

fun update_fields :: "redis_db \<Rightarrow> string \<Rightarrow> (string \<rightharpoonup> pyval) \<Rightarrow> string list \<Rightarrow> (error + bool) \<times> redis_db" where
  "update_fields db redis_key kwargs [] = (Inr True, db)"
| "update_fields db redis_key kwargs (updatable_key # ks) =
     (case kwargs updatable_key of
        None \<Rightarrow> update_fields db redis_key kwargs ks
      | Some v \<Rightarrow>
          if type_is_int v then
            (case hset db redis_key updatable_key (encode v) of
               Inl e \<Rightarrow> (Inl e, db)
             | Inr db1 \<Rightarrow> update_fields db1 redis_key kwargs ks)
          else update_fields db redis_key kwargs ks)"

definition update_realm :: "redis_db \<Rightarrow> string \<Rightarrow> (string \<rightharpoonup> pyval) \<Rightarrow> (error + bool) \<times> redis_db" where
  "update_realm db realm kwargs = update_fields db (realm_redis_key realm) kwargs updatable_keys"

definition unregister_realm :: "redis_db \<Rightarrow> string \<Rightarrow> (error + bool) \<times> redis_db" where
  "unregister_realm db realm =
     (let db1 = delete_key db (realm_redis_key realm) in
      case srem db1 realms_key realm of
        Inl e \<Rightarrow> (Inl e, db1)
      | Inr db2 \<Rightarrow>
          (let request_keys = keys db2 (request_pattern realm)
           in (Inr True, foldl delete_key db2 request_keys)))"

fun unregister_realms :: "redis_db \<Rightarrow> string list \<Rightarrow> (error + bool) \<times> redis_db" where
  "unregister_realms db [] = (Inr True, db)"
| "unregister_realms db (realm # realms) =
     (case unregister_realm db realm of
        (Inl e, db1) \<Rightarrow> (Inl e, db1)
      | (Inr _, db1) \<Rightarrow> unregister_realms db1 realms)"

text \<open>The members of the index come back as a collection in no particular order.\<close>

definition fetch_registered_realms :: "redis_db \<Rightarrow> error + string set" where
  "fetch_registered_realms db = smembers db realms_key"

definition fetch_realm_info :: "redis_db \<Rightarrow> string \<Rightarrow> error + (string \<times> string) list" where
  "fetch_realm_info db realm = hgetall db (realm_redis_key realm)"

definition realm_field :: "redis_db \<Rightarrow> string \<Rightarrow> string \<Rightarrow> error + int" where
  "realm_field db realm field =
     (case fetch_realm_info db realm of
        Inl e \<Rightarrow> Inl e
      | Inr realm_info \<Rightarrow>
          (case map_of realm_info field of
             None \<Rightarrow> Inl (KeyError field)
           | Some b \<Rightarrow> py_int b))"

definition realm_max_requests :: "redis_db \<Rightarrow> string \<Rightarrow> error + int" where
  "realm_max_requests db realm = realm_field db realm ''max_requests''"

definition realm_timespan :: "redis_db \<Rightarrow> string \<Rightarrow> error + int" where
  "realm_timespan db realm = realm_field db realm ''timespan''"

subsection \<open>Request ledger\<close>

definition redis_keys_in_db :: "redis_db \<Rightarrow> error + nat" where
  "redis_keys_in_db db =
     (case info_db_keys db of None \<Rightarrow> Inl AttributeError | Some n \<Rightarrow> Inr n)"

definition requests_in_timespan :: "redis_db \<Rightarrow> string \<Rightarrow> error + nat" where
  "requests_in_timespan db realm =
     (case redis_keys_in_db db of
        Inl e \<Rightarrow> Inl e
      | Inr n \<Rightarrow> Inr (length (scan db (request_pattern realm) (n + 100))))"

definition can_perform_get :: "redis_db \<Rightarrow> int \<Rightarrow> string \<Rightarrow> error + bool" where
  "can_perform_get db safety_threshold realm =
     (case requests_in_timespan db realm of
        Inl e \<Rightarrow> Inl e
      | Inr active \<Rightarrow>
          (case realm_max_requests db realm of
             Inl e \<Rightarrow> Inl e
           | Inr max_requests \<Rightarrow> Inr (int active < max_requests - safety_threshold)))"

subsection \<open>The gated call\<close>

text \<open>
  The caller hands over the call to gate as a function object. What the driver looks at
  is whether it is a function (\<open>LambdaType\<close>), the source text that \<open>inspect\<close> finds
  for it (none when the source cannot be retrieved), and what calling it produces; the
  \<open>k\<close>-th call made through the driver produces \<open>call k\<close>.
\<close>

definition apostrophe :: string where
  "apostrophe = [CHR 0x27]"

record 'r get_func =
  is_lambda_type :: bool
  getsource :: "string option"
  call :: "nat \<Rightarrow> error + 'r"

fun split_on :: "char \<Rightarrow> string \<Rightarrow> string list" where
  "split_on sep [] = [[]]"
| "split_on sep (c # cs) =
     (if c = sep then [] # split_on sep cs
      else (case split_on sep cs of [] \<Rightarrow> [[c]] | part # parts \<Rightarrow> (c # part) # parts))"

definition is_space :: "char \<Rightarrow> bool" where
  "is_space c = (let n = (of_char c :: nat) in (9 \<le> n \<and> n \<le> 13) \<or> (28 \<le> n \<and> n \<le> 32))"

definition strip :: "string \<Rightarrow> string" where
  "strip s = rev (dropWhile is_space (rev (dropWhile is_space s)))"

definition validate_get_func :: "'r get_func \<Rightarrow> error + unit" where
  "validate_get_func get_func =
     (if \<not> is_lambda_type get_func then
        Inl (SeleniumRespectfulError (apostrophe @ ''get_func'' @ apostrophe @ '' is expected to be a lambda''))
      else
        (case getsource get_func of
           None \<Rightarrow> Inl OSError
         | Some get_func_string \<Rightarrow>
             (case split_on CHR '':'' get_func_string of
                first # second # parts \<Rightarrow>
                  if prefix ''self.webdriver.get'' (strip second) then Inr ()
                  else Inl (SeleniumRespectfulError
                              ''The lambda can only contain a self.webdriver.get function call'')
              | _ \<Rightarrow> Inl IndexError)))"

text \<open>
  The world of one driver: the store, how many identifiers \<open>uuid4\<close> has handed out, how
  many times the gated call has been made, and how many seconds the driver has slept.
\<close>

record world =
  redis :: redis_db
  uuids_drawn :: nat
  get_calls :: nat
  seconds_slept :: nat

fun rate_limited_realms :: "redis_db \<Rightarrow> int \<Rightarrow> string list \<Rightarrow> string list \<Rightarrow> error + string list" where
  "rate_limited_realms db safety_threshold acc [] = Inr acc"
| "rate_limited_realms db safety_threshold acc (realm # realms) =
     (case can_perform_get db safety_threshold realm of
        Inl e \<Rightarrow> Inl e
      | Inr ok \<Rightarrow>
          rate_limited_realms db safety_threshold (if ok then acc else acc @ [realm]) realms)"

fun join :: "string \<Rightarrow> string list \<Rightarrow> string" where
  "join sep [] = []"
| "join sep [x] = x"
| "join sep (x # y # ys) = x @ sep @ join sep (y # ys)"

definition rate_limited_message :: "string list \<Rightarrow> string" where
  "rate_limited_message realms = ''Currently rate-limited on Realm(s): '' @ join '', '' realms"

text \<open>
  One lease per entry of \<open>realms\<close>, in order: a new identifier is drawn, the realm's
  \<open>timespan\<close> is read, and the lease is written with that time to live.
\<close>

fun issue_leases :: "(nat \<Rightarrow> string) \<Rightarrow> string list \<Rightarrow> world \<Rightarrow> (error + unit) \<times> world" where
  "issue_leases uuid4 [] w = (Inr (), w)"
| "issue_leases uuid4 (realm # realms) w =
     (let request_uuid = uuid4 (uuids_drawn w);
          w1 = w\<lparr>uuids_drawn := Suc (uuids_drawn w)\<rparr>
      in case realm_timespan (redis w1) realm of
           Inl e \<Rightarrow> (Inl e, w1)
         | Inr time \<Rightarrow>
             (case setex (redis w1) (request_key realm request_uuid) time request_uuid of
                Inl e \<Rightarrow> (Inl e, w1)
              | Inr db \<Rightarrow> issue_leases uuid4 realms (w1\<lparr>redis := db\<rparr>)))"

definition perform_webdriver_get ::
  "(nat \<Rightarrow> string) \<Rightarrow> int \<Rightarrow> 'r get_func \<Rightarrow> string list \<Rightarrow> world \<Rightarrow> (error + 'r) \<times> world" where
  "perform_webdriver_get uuid4 safety_threshold get_func realms w =
     (case validate_get_func get_func of
        Inl e \<Rightarrow> (Inl e, w)
      | Inr _ \<Rightarrow>
          (case rate_limited_realms (redis w) safety_threshold [] realms of
             Inl e \<Rightarrow> (Inl e, w)
           | Inr [] \<Rightarrow>
               (case issue_leases uuid4 realms w of
                  (Inl e, w1) \<Rightarrow> (Inl e, w1)
                | (Inr _, w1) \<Rightarrow>
                    (call get_func (get_calls w1), w1\<lparr>get_calls := Suc (get_calls w1)\<rparr>))
           | Inr (r # rs) \<Rightarrow>
               (Inl (SeleniumRespectfulRateLimitedError (rate_limited_message (r # rs))), w)))"

subsection \<open>Waiting for capacity\<close>

text \<open>
  \<open>time.sleep(1)\<close>: one more second slept, during which the store moves on by
  \<open>elapse\<close> (leases run down, other clients write). \<open>expire_after n\<close> is what the
  passing of \<open>n\<close> seconds alone does to the store.
\<close>

definition sleep :: "(redis_db \<Rightarrow> redis_db) \<Rightarrow> world \<Rightarrow> world" where
  "sleep elapse w = w\<lparr>redis := elapse (redis w), seconds_slept := seconds_slept w + 1\<rparr>"

fun expire_after :: "int \<Rightarrow> redis_db \<Rightarrow> redis_db" where
  "expire_after n [] = []"
| "expire_after n ((k, RString v ttl) # db) =
     (if ttl \<le> n then expire_after n db else (k, RString v (ttl - n)) # expire_after n db)"
| "expire_after n (kv # db) = kv # expire_after n db"

fun is_rate_limited :: "error + 'r \<Rightarrow> bool" where
  "is_rate_limited (Inl (SeleniumRespectfulRateLimitedError m)) = True"
| "is_rate_limited _ = False"

partial_function (option) wait_loop ::
  "(redis_db \<Rightarrow> redis_db) \<Rightarrow> (nat \<Rightarrow> string) \<Rightarrow> int \<Rightarrow> 'r get_func \<Rightarrow> string list \<Rightarrow> world
     \<Rightarrow> ((error + 'r) \<times> world) option" where
  "wait_loop elapse uuid4 safety_threshold get_func realms w =
     (case perform_webdriver_get uuid4 safety_threshold get_func realms w of
        (outcome, w1) \<Rightarrow>
          if is_rate_limited outcome
          then wait_loop elapse uuid4 safety_threshold get_func realms (sleep elapse w1)
          else Some (outcome, w1))"

definition realm_not_registered :: "string \<Rightarrow> error" where
  "realm_not_registered realm =
     SeleniumRespectfulError
       (''Realm '' @ apostrophe @ realm @ apostrophe @ '' hasn'' @ apostrophe @ ''t been registered'')"

definition webdriver_get ::
  "(redis_db \<Rightarrow> redis_db) \<Rightarrow> (nat \<Rightarrow> string) \<Rightarrow> int \<Rightarrow> 'r get_func \<Rightarrow> string list \<Rightarrow> bool \<Rightarrow> world
     \<Rightarrow> ((error + 'r) \<times> world) option" where
  "webdriver_get elapse uuid4 safety_threshold get_func realms wait w =
     (case fetch_registered_realms (redis w) of
        Inl e \<Rightarrow> Some (Inl e, w)
      | Inr registered_realms \<Rightarrow>
          (case find (\<lambda>realm. realm \<notin> registered_realms) realms of
             Some realm \<Rightarrow> Some (Inl (realm_not_registered realm), w)
           | None \<Rightarrow>
               if wait then wait_loop elapse uuid4 safety_threshold get_func realms w
               else Some (perform_webdriver_get uuid4 safety_threshold get_func realms w)))"

text \<open>
  The public \<open>get\<close>: the gated call is the driver's own lambda around
  \<open>self.webdriver.get\<close>, whose source is the line of the driver that holds it.
\<close>

definition proxy_lambda :: "(nat \<Rightarrow> error + 'r) \<Rightarrow> 'r get_func" where
  "proxy_lambda webdriver_get_call =
     \<lparr>is_lambda_type = True,
      getsource = Some (''        return self._webdriver_get(lambda: self.webdriver.get(*args, **kwargs), realms=realms, wait=wait)'' @ [CHR 0x0A]),
      call = webdriver_get_call\<rparr>"

definition selenium_webdriver_proxy_get ::
  "(redis_db \<Rightarrow> redis_db) \<Rightarrow> (nat \<Rightarrow> string) \<Rightarrow> int \<Rightarrow> (nat \<Rightarrow> error + 'r) \<Rightarrow> string list \<Rightarrow> bool \<Rightarrow> world
     \<Rightarrow> ((error + 'r) \<times> world) option" where
  "selenium_webdriver_proxy_get elapse uuid4 safety_threshold webdriver_get_call realms wait w =
     (if length realms = 0 then Some (Inl (SeleniumRespectfulError (apostrophe @ ''realms'' @ apostrophe @ '' is a required kwarg'')), w)
      else webdriver_get elapse uuid4 safety_threshold (proxy_lambda webdriver_get_call) realms wait w)"

section \<open>Configuration\<close>

text \<open>
  What \<open>yaml.load\<close> makes of the configuration file is a Python value: a scalar, a
  list, or a dictionary. The file itself may be absent (\<open>open\<close> raises
  \<open>FileNotFoundError\<close>) or not be YAML at all. \<open>YNull\<close> is Python's \<open>None\<close>.
\<close>

datatype yaml =
    YNull
  | YBool bool
  | YInt int
  | YFloat string
  | YStr string
  | YList "yaml list"
  | YMap "(string \<times> yaml) list"

datatype config_file = NoFile | Unparsable | Document yaml

definition default_config :: yaml where
  "default_config =
     YMap [(''redis'', YMap [(''host'', YStr ''localhost''), (''port'', YInt 6379), (''database'', YInt 0)]),
           (''safety_threshold'', YInt 0)]"

fun is_substring :: "string \<Rightarrow> string \<Rightarrow> bool" where
  "is_substring p [] = (p = [])"
| "is_substring p (c # cs) = (prefix p (c # cs) \<or> is_substring p cs)"

text \<open>\<open>key in obj\<close>, \<open>obj[key]\<close> and \<open>obj[key] = v\<close> for a string key.\<close>

fun contains :: "yaml \<Rightarrow> string \<Rightarrow> error + bool" where
  "contains (YMap m) key = Inr (map_of m key \<noteq> None)"
| "contains (YList xs) key = Inr (YStr key \<in> set xs)"
| "contains (YStr s) key = Inr (is_substring key s)"
| "contains _ key = Inl TypeError"

fun getitem :: "yaml \<Rightarrow> string \<Rightarrow> error + yaml" where
  "getitem (YMap m) key = (case map_of m key of None \<Rightarrow> Inl (KeyError key) | Some v \<Rightarrow> Inr v)"
| "getitem _ key = Inl TypeError"

fun setitem :: "yaml \<Rightarrow> string \<Rightarrow> yaml \<Rightarrow> error + yaml" where
  "setitem (YMap m) key v = Inr (YMap (AList.update key v m))"
| "setitem _ key v = Inl TypeError"

text \<open>\<open>isinstance(v, int)\<close> holds of integers and of booleans, and \<open>False\<close> and \<open>True\<close> compare as 0 and 1.\<close>

fun as_int :: "yaml \<Rightarrow> int option" where
  "as_int (YInt n) = Some n"
| "as_int (YBool b) = Some (if b then 1 else 0)"
| "as_int _ = None"

definition check_safety_threshold :: "yaml \<Rightarrow> error + yaml" where
  "check_safety_threshold config =
     (case contains config ''safety_threshold'' of
        Inl e \<Rightarrow> Inl e
      | Inr False \<Rightarrow>
          (case getitem default_config ''safety_threshold'' of
             Inl e \<Rightarrow> setitem config ''safety_threshold'' YNull
           | Inr d \<Rightarrow> setitem config ''safety_threshold'' d)
      | Inr True \<Rightarrow>
          (case getitem config ''safety_threshold'' of
             Inl e \<Rightarrow> Inl e
           | Inr v \<Rightarrow>
               (case as_int v of
                  None \<Rightarrow> Inl (SeleniumRespectfulError
                    (apostrophe @ ''safety_threshold'' @ apostrophe @ '' key must be a positive integer in ''
                       @ apostrophe @ ''selenium-respectful.config.yml'' @ apostrophe))
                | Some n \<Rightarrow>
                    if n < 0 then Inl (SeleniumRespectfulError
                      (apostrophe @ ''safety_threshold'' @ apostrophe @ '' key must be a positive integer in ''
                         @ apostrophe @ ''selenium-respectful.config.yml'' @ apostrophe))
                    else Inr config)))"

fun missing_redis_keys :: "yaml \<Rightarrow> string list \<Rightarrow> string list \<Rightarrow> error + string list" where
  "missing_redis_keys config acc [] = Inr acc"
| "missing_redis_keys config acc (expected_redis_key # ks) =
     (case getitem config ''redis'' of
        Inl e \<Rightarrow> Inl e
      | Inr r \<Rightarrow>
          (case contains r expected_redis_key of
             Inl e \<Rightarrow> Inl e
           | Inr present \<Rightarrow>
               missing_redis_keys config (if present then acc else acc @ [expected_redis_key]) ks))"

definition expected_redis_keys :: "string list" where
  "expected_redis_keys = [''host'', ''port'', ''database'']"

definition missing_message :: "string list \<Rightarrow> string" where
  "missing_message missing =
     apostrophe @ join '', '' missing @ apostrophe @ '' ''
       @ (if length missing = 1 then ''is'' else ''are'')
       @ '' missing from the '' @ apostrophe @ ''redis'' @ apostrophe @ '' configuration key in ''
       @ apostrophe @ ''selenium-respectful.config.yml'' @ apostrophe"

text \<open>
  The value \<open>load_config\<close> returns: the default configuration when there is no file,
  and, when the file passes every check, what a Python function returns that reaches its
  end without a \<open>return\<close>, which is \<open>None\<close>.
\<close>

definition load_config :: "config_file \<Rightarrow> error + yaml" where
  "load_config f =
     (case f of
        NoFile \<Rightarrow> Inr default_config
      | Unparsable \<Rightarrow> Inl YAMLError
      | Document loaded \<Rightarrow>
          (case check_safety_threshold loaded of
             Inl e \<Rightarrow> Inl e
           | Inr config \<Rightarrow>
               (case contains config ''redis'' of
                  Inl e \<Rightarrow> Inl e
                | Inr False \<Rightarrow> Inl (SeleniumRespectfulError
                    (apostrophe @ ''redis'' @ apostrophe @ '' key is missing from ''
                       @ apostrophe @ ''selenium-respectful.config.yml'' @ apostrophe))
                | Inr True \<Rightarrow>
                    (case missing_redis_keys config [] expected_redis_keys of
                       Inl e \<Rightarrow> Inl e
                     | Inr [] \<Rightarrow> Inr YNull
                     | Inr (k # ks) \<Rightarrow> Inl (SeleniumRespectfulError (missing_message (k # ks)))))))"

text \<open>
  Construction: the configuration is loaded, the webdriver's class is checked, the store
  client is made from the configuration's \<open>redis\<close> entries, and the connection is tried.
\<close>

record driver =
  config :: yaml
  redis_host :: yaml
  redis_port :: yaml
  redis_database :: yaml

definition init :: "config_file \<Rightarrow> bool \<Rightarrow> bool \<Rightarrow> error + driver" where
  "init f webdriver_inherits store_reachable =
     (case load_config f of
        Inl e \<Rightarrow> Inl e
      | Inr cfg \<Rightarrow>
          if \<not> webdriver_inherits then
            Inl (SeleniumRespectfulError ''The provided webdriver does not inherit from RemoteWebDriver'')
          else
            (case getitem cfg ''redis'' of
               Inl e \<Rightarrow> Inl e
             | Inr r \<Rightarrow>
                 (case getitem r ''host'' of
                    Inl e \<Rightarrow> Inl e
                  | Inr h \<Rightarrow>
                      (case getitem r ''port'' of
                         Inl e \<Rightarrow> Inl e
                       | Inr p \<Rightarrow>
                           (case getitem r ''database'' of
                              Inl e \<Rightarrow> Inl e
                            | Inr d \<Rightarrow>
                                if \<not> store_reachable then
                                  Inl (SeleniumRespectfulError
                                    ''Could not establish a connection to the provided Redis server'')
                                else Inr \<lparr>config = cfg, redis_host = h, redis_port = p, redis_database = d\<rparr>)))))"

section \<open>Observations used in the statements\<close>

text \<open>
  \<open>stored_field\<close> is the raw text the store holds for one field of a realm's
  definition, and \<open>int_arg\<close> is the integer a keyword argument carries when its type is
  exactly \<open>int\<close>.
\<close>

definition stored_field :: "redis_db \<Rightarrow> string \<Rightarrow> string \<Rightarrow> string option" where
  "stored_field db realm field =
     (case map_of db (realm_redis_key realm) of Some (RHash h) \<Rightarrow> map_of h field | _ \<Rightarrow> None)"

definition int_arg :: "(string \<rightharpoonup> pyval) \<Rightarrow> string \<Rightarrow> int option" where
  "int_arg kwargs key = (case kwargs key of Some (PInt n) \<Rightarrow> Some n | _ \<Rightarrow> None)"

text \<open>
  The spec's words for the ledger and the admission rule. A lease of a realm is a string
  key made of the prefix, the realm's name and an identifier (identifiers, as
  \<open>uuid4\<close> writes them, hold no colon); the keys in the store are the ones that have
  not expired. A realm's active count is the number of its leases in the store, its
  capacity is \<open>max_requests\<close> less the safety threshold, and its headroom is the capacity
  less the active count. There is no headroom to speak of when the realm's
  \<open>max_requests\<close> cannot be read.
\<close>

definition request_prefix :: "string \<Rightarrow> string" where
  "request_prefix realm = redis_prefix @ '':REQUEST:'' @ realm @ '':''"

definition is_lease_of :: "string \<Rightarrow> string \<times> rvalue \<Rightarrow> bool" where
  "is_lease_of realm kv =
     (case kv of
        (k, RString v ttl) \<Rightarrow>
          prefix (request_prefix realm) k
          \<and> CHR '':'' \<notin> set (drop (length (request_prefix realm)) k)
      | _ \<Rightarrow> False)"

definition active_count :: "redis_db \<Rightarrow> string \<Rightarrow> nat" where
  "active_count db realm = length (filter (is_lease_of realm) db)"

definition headroom :: "redis_db \<Rightarrow> int \<Rightarrow> string \<Rightarrow> int option" where
  "headroom db safety_threshold realm =
     (case realm_max_requests db realm of
        Inl e \<Rightarrow> None
      | Inr max_requests \<Rightarrow> Some ((max_requests - safety_threshold) - int (active_count db realm)))"

text \<open>
  The leases a granted request writes: one per entry of \<open>realms\<close>, the \<open>k\<close>-th under
  the \<open>k\<close>-th identifier drawn from \<open>n\<close> on, each with its realm's timespan.
\<close>

fun new_leases :: "(nat \<Rightarrow> string) \<Rightarrow> (string \<Rightarrow> int) \<Rightarrow> nat \<Rightarrow> string list \<Rightarrow> (string \<times> rvalue) list" where
  "new_leases uuid4 timespan_of n [] = []"
| "new_leases uuid4 timespan_of n (realm # realms) =
     (request_key realm (uuid4 n), RString (uuid4 n) (timespan_of realm))
       # new_leases uuid4 timespan_of (Suc n) realms"


text \<open>The characters that a key pattern does not take literally.\<close>

definition glob_special :: "char \<Rightarrow> bool" where
  "glob_special c = (c = CHR ''*'' \<or> c = CHR ''?'' \<or> c = CHR ''['' \<or> c = CHR 0x5C)"

subsection \<open>Example stores\<close>

text \<open>
  \<open>example_realms\<close> holds three registered realms, \<open>A\<close> with no capacity at all;
  \<open>example_leased\<close> is a world in which realm \<open>A\<close> allows one request in two seconds
  and that request has just been made.
\<close>

definition example_uuid4 :: "nat \<Rightarrow> string" where
  "example_uuid4 n = ''u'' @ py_str_int (int n)"

definition example_get_func :: "nat get_func" where
  "example_get_func = proxy_lambda (\<lambda>n. Inr n)"

definition example_realms :: redis_db where
  "example_realms =
     [(realm_redis_key ''A'', RHash [(''max_requests'', ''0''), (''timespan'', ''5'')]),
      (realms_key, RSet {''A'', ''B'', ''C''}),
      (realm_redis_key ''B'', RHash [(''max_requests'', ''10''), (''timespan'', ''7'')]),
      (realm_redis_key ''C'', RHash [(''max_requests'', ''3''), (''timespan'', ''9'')])]"

definition example_world :: world where
  "example_world = \<lparr>redis = example_realms, uuids_drawn = 0, get_calls = 0, seconds_slept = 0\<rparr>"


section \<open>Decimal text of integers\<close>

lemma nat_of_le_digits_le_digits: "nat_of_le_digits (le_digits n) = Some n"
  apply (induction n rule: le_digits.induct)
  apply (subst le_digits.simps)
  apply (auto simp: digit_val_def digit_char_def)
  done

lemma le_digits_nonempty: "le_digits n \<noteq> []"
  by (subst le_digits.simps) simp

lemma last_le_digits_digit: "digit_val (last (le_digits n)) \<noteq> None"
  apply (induction n rule: le_digits.induct)
  apply (subst le_digits.simps)
  apply (auto simp: digit_val_def digit_char_def le_digits_nonempty split: if_splits)
  done

lemma nat_of_digits_rev_le_digits: "nat_of_digits (rev (le_digits n)) = Some n"
  by (simp add: nat_of_digits_def le_digits_nonempty nat_of_le_digits_le_digits)

lemma hd_rev_le_digits:
  "hd (rev (le_digits n)) \<noteq> CHR ''-'' \<and> hd (rev (le_digits n)) \<noteq> CHR ''+''"
  using last_le_digits_digit [of n]
  by (auto simp: hd_rev digit_val_def split: if_splits)

text \<open>Reading back what was written gives the integer that was written.\<close>

lemma py_int_py_str_int: "py_int (py_str_int i) = Inr i"
proof (cases "i < 0")
  case True
  then show ?thesis
    by (simp add: py_int_def py_str_int_def nat_of_digits_rev_le_digits)
next
  case False
  obtain c cs where cs: "rev (le_digits (nat i)) = c # cs"
    using le_digits_nonempty [of "nat i"] by (cases "rev (le_digits (nat i))") auto
  have "c \<noteq> CHR ''-''" "c \<noteq> CHR ''+''"
    using hd_rev_le_digits [of "nat i"] cs by auto
  moreover have "nat_of_digits (c # cs) = Some (nat i)"
    using nat_of_digits_rev_le_digits [of "nat i"] cs by simp
  ultimately show ?thesis
    using False cs by (simp add: py_int_def py_str_int_def)
qed

section \<open>Store commands\<close>


lemma stored_field_hset:
  "hset db (realm_redis_key realm) key v = Inr db1 \<Longrightarrow>
   stored_field db1 realm field = (if field = key then Some v else stored_field db realm field)"
  by (auto simp: hset_def stored_field_def update_conv' split: option.splits rvalue.splits)

lemma hset_other_keys:
  "hset db name key v = Inr db1 \<Longrightarrow> k \<noteq> name \<Longrightarrow> map_of db1 k = map_of db k"
  by (auto simp: hset_def update_conv' split: option.splits rvalue.splits)


section \<open>Updating a realm\<close>

lemma update_fields_skip:
  "int_arg kwargs key = None \<Longrightarrow>
   update_fields db name kwargs (key # ks) = update_fields db name kwargs ks"
  by (cases "kwargs key"; cases "the (kwargs key)") (auto simp: int_arg_def)

lemma update_fields_write:
  "int_arg kwargs key = Some n \<Longrightarrow>
   update_fields db name kwargs (key # ks) =
     (case hset db name key (py_str_int n) of
        Inl e \<Rightarrow> (Inl e, db)
      | Inr db1 \<Rightarrow> update_fields db1 name kwargs ks)"
  by (cases "kwargs key"; cases "the (kwargs key)") (auto simp: int_arg_def)

text \<open>A field that is not written keeps its text, whatever happens to the others.\<close>

lemma update_fields_untouched:
  "int_arg kwargs field = None \<or> field \<notin> set ks \<Longrightarrow>
   stored_field (snd (update_fields db (realm_redis_key realm) kwargs ks)) realm field
     = stored_field db realm field"
proof (induction ks arbitrary: db)
  case Nil
  then show ?case by simp
next
  case (Cons key ks)
  show ?case
  proof (cases "int_arg kwargs key")
    case None
    with Cons show ?thesis by (auto simp: update_fields_skip simp del: update_fields.simps)
  next
    case (Some n)
    with Cons.prems have ne: "field \<noteq> key" by auto
    show ?thesis
    proof (cases "hset db (realm_redis_key realm) key (py_str_int n)")
      case (Inl e)
      with Some show ?thesis by (simp add: update_fields_write del: update_fields.simps)
    next
      case (Inr db1)
      have "stored_field db1 realm field = stored_field db realm field"
        using stored_field_hset [OF Inr, of field] ne by simp
      moreover have "int_arg kwargs field = None \<or> field \<notin> set ks"
        using Cons.prems by auto
      ultimately show ?thesis
        using Some Inr Cons.IH [of db1] by (simp add: update_fields_write del: update_fields.simps)
    qed
  qed
qed

lemma update_fields_nothing:
  "\<forall>key \<in> set ks. int_arg kwargs key = None \<Longrightarrow>
   update_fields db name kwargs ks = (Inr True, db)"
  by (induction ks) (auto simp: update_fields_skip simp del: update_fields.simps(2))




text \<open>
  C10. A boolean is not of type \<open>int\<close> for \<open>update_realm\<close>: a field \<open>max_requests\<close> or
  \<open>timespan\<close> supplied as \<open>True\<close> or \<open>False\<close> keeps the text it had in the store,
  whatever else the call supplies, and a call that supplies booleans for both leaves
  the whole store as it was and returns \<open>True\<close>.
\<close>

theorem update_realm_ignores_booleans:
  "(key \<in> set updatable_keys \<and> kwargs key = Some (PBool b) \<longrightarrow>
      stored_field (snd (update_realm db realm kwargs)) realm key = stored_field db realm key)
   \<and> ((\<forall>key \<in> set updatable_keys. \<exists>b. kwargs key = Some (PBool b)) \<longrightarrow>
      update_realm db realm kwargs = (Inr True, db))"
proof -
  have "int_arg kwargs k = None" if "kwargs k = Some (PBool c)" for k c
    using that by (simp add: int_arg_def)
  then show ?thesis
    unfolding update_realm_def
    by (metis update_fields_untouched update_fields_nothing)
qed

theorem update_realm_ignores_booleans_witness:
  "''max_requests'' \<in> set updatable_keys
   \<and> update_realm [(realm_redis_key ''A'', RHash [(''max_requests'', ''100''), (''timespan'', ''300'')])] ''A''
        [''max_requests'' \<mapsto> PBool True, ''timespan'' \<mapsto> PBool False]
     = (Inr True, [(realm_redis_key ''A'', RHash [(''max_requests'', ''100''), (''timespan'', ''300'')])])
   \<and> stored_field (snd (update_realm
          [(realm_redis_key ''A'', RHash [(''max_requests'', ''100''), (''timespan'', ''300'')])] ''A''
          [''max_requests'' \<mapsto> PBool True, ''timespan'' \<mapsto> PInt 5])) ''A'' ''max_requests''
     = Some ''100''"
proof -
  have key: "''max_requests'' \<in> set updatable_keys"
    by (simp add: updatable_keys_def)
  have before:
    "stored_field [(realm_redis_key ''A'', RHash [(''max_requests'', ''100''), (''timespan'', ''300'')])]
       ''A'' ''max_requests'' = Some ''100''"
    by (simp add: stored_field_def)
  show ?thesis
    using key before
      update_realm_ignores_booleans [of "''max_requests''"
        "[''max_requests'' \<mapsto> PBool True, ''timespan'' \<mapsto> PBool False]" True
        "[(realm_redis_key ''A'', RHash [(''max_requests'', ''100''), (''timespan'', ''300'')])]" "''A''"]
      update_realm_ignores_booleans [of "''max_requests''"
        "[''max_requests'' \<mapsto> PBool True, ''timespan'' \<mapsto> PInt 5]" True
        "[(realm_redis_key ''A'', RHash [(''max_requests'', ''100''), (''timespan'', ''300'')])]" "''A''"]
    by (auto simp: updatable_keys_def)
qed

section \<open>Registering a realm\<close>

text \<open>The three kinds of key never coincide.\<close>

lemma realm_redis_key_neq_realms_key [simp]:
  "realm_redis_key realm \<noteq> realms_key" "realms_key \<noteq> realm_redis_key realm"
  by (simp_all add: realm_redis_key_def realms_key_def)

lemma request_key_neq_realm_redis_key [simp]:
  "request_key realm u \<noteq> realm_redis_key realm'" "realm_redis_key realm' \<noteq> request_key realm u"
  by (simp_all add: realm_redis_key_def request_key_def)

lemma request_key_neq_realms_key [simp]:
  "request_key realm u \<noteq> realms_key" "realms_key \<noteq> request_key realm u"
  by (simp_all add: realms_key_def request_key_def)

lemma realm_redis_key_inj [simp]: "realm_redis_key a = realm_redis_key b \<longleftrightarrow> a = b"
  by (simp add: realm_redis_key_def)

lemma hexists_cases:
  "hexists db name field = Inr False \<longleftrightarrow>
     map_of db name = None \<or> (\<exists>h. map_of db name = Some (RHash h) \<and> map_of h field = None)"
  by (auto simp: hexists_def split: option.splits rvalue.splits)

lemma smembers_cases:
  "smembers db name = Inr S \<longleftrightarrow>
     (map_of db name = None \<and> S = {}) \<or> map_of db name = Some (RSet S)"
  by (auto simp: smembers_def split: option.splits rvalue.splits)

lemma register_realm_absent:
  assumes absent: "hexists db (realm_redis_key realm) ''max_requests'' = Inr False"
    and index: "smembers db realms_key = Inr S"
  shows "\<exists>h. register_realm db realm m t =
     (Inr True, AList.update realms_key (RSet (insert realm S))
        (AList.update (realm_redis_key realm)
           (RHash (AList.update ''timespan'' (py_str_int t) (AList.update ''max_requests'' (py_str_int m) h))) db))
     \<and> (map_of db (realm_redis_key realm) = None \<and> h = [] \<or> map_of db (realm_redis_key realm) = Some (RHash h))"
proof -
  from absent consider "map_of db (realm_redis_key realm) = None"
    | h where "map_of db (realm_redis_key realm) = Some (RHash h)"
    by (auto simp: hexists_cases)
  then show ?thesis
  proof cases
    case 1
    with index show ?thesis
      by (auto simp: register_realm_def absent hmset_def sadd_def update_conv' smembers_cases)
  next
    case 2
    with index show ?thesis
      by (auto simp: register_realm_def absent hmset_def sadd_def update_conv' smembers_cases)
  qed
qed


lemma realm_field_written:
  "map_of db (realm_redis_key realm) = Some (RHash h) \<Longrightarrow> map_of h field = Some (py_str_int n) \<Longrightarrow>
   realm_field db realm field = Inr n"
  by (simp add: realm_field_def fetch_realm_info_def hgetall_def py_int_py_str_int)

text \<open>
  A name can hold a definition without being registered: \<open>update_realm\<close> on a name
  that was never registered writes the field it was given. Registering that name
  afterwards returns \<open>True\<close>, stores neither the \<open>max_requests\<close> nor the \<open>timespan\<close>
  it was given and leaves the name out of the index, so that a request for the realm is
  still refused as not registered.
\<close>

theorem register_realm_after_update_counterexample:
  "update_realm [] ''A'' [''max_requests'' \<mapsto> PInt 5] =
     (Inr True, [(realm_redis_key ''A'', RHash [(''max_requests'', ''5'')])])
   \<and> fetch_registered_realms [(realm_redis_key ''A'', RHash [(''max_requests'', ''5'')])] = Inr {}
   \<and> register_realm [(realm_redis_key ''A'', RHash [(''max_requests'', ''5'')])] ''A'' 100 300 =
     (Inr True, [(realm_redis_key ''A'', RHash [(''max_requests'', ''5'')])])
   \<and> realm_max_requests [(realm_redis_key ''A'', RHash [(''max_requests'', ''5'')])] ''A'' = Inr 5
   \<and> realm_timespan [(realm_redis_key ''A'', RHash [(''max_requests'', ''5'')])] ''A''
       = Inl (KeyError ''timespan'')
   \<and> selenium_webdriver_proxy_get (expire_after 1) example_uuid4 0 (\<lambda>n. Inr n) [''A''] False
        \<lparr>redis = [(realm_redis_key ''A'', RHash [(''max_requests'', ''5'')])],
         uuids_drawn = 0, get_calls = 0, seconds_slept = 0\<rparr> =
     Some (Inl (realm_not_registered ''A''),
        \<lparr>redis = [(realm_redis_key ''A'', RHash [(''max_requests'', ''5'')])],
         uuids_drawn = 0, get_calls = 0, seconds_slept = 0\<rparr>)"
  by code_simp

text \<open>
  C3, as amended. \<open>register_realm\<close> looks for the field \<open>max_requests\<close> of the
  realm's definition. When the definition holds it, the call returns \<open>True\<close> and the
  store is exactly what it was: the stored \<open>max_requests\<close> and \<open>timespan\<close> and the
  index keep their values. When the definition does not hold it (and the index is a set,
  or not there yet), the call returns \<open>True\<close>, the definition reads back as the
  \<open>max_requests\<close> and \<open>timespan\<close> that were given, the index gains the realm's
  name, and no other key changes.
\<close>

theorem register_realm_only_if_absent:
  "(hexists db (realm_redis_key realm) ''max_requests'' = Inr True \<longrightarrow>
      register_realm db realm m t = (Inr True, db))
   \<and> (hexists db (realm_redis_key realm) ''max_requests'' = Inr False
        \<and> fetch_registered_realms db = Inr S \<longrightarrow>
      fst (register_realm db realm m t) = Inr True
      \<and> realm_max_requests (snd (register_realm db realm m t)) realm = Inr m
      \<and> realm_timespan (snd (register_realm db realm m t)) realm = Inr t
      \<and> fetch_registered_realms (snd (register_realm db realm m t)) = Inr (insert realm S)
      \<and> (\<forall>k. k \<noteq> realm_redis_key realm \<and> k \<noteq> realms_key \<longrightarrow>
            map_of (snd (register_realm db realm m t)) k = map_of db k))"
proof (intro conjI impI)
  assume "hexists db (realm_redis_key realm) ''max_requests'' = Inr True"
  then show "register_realm db realm m t = (Inr True, db)"
    by (simp add: register_realm_def)
next
  assume a: "hexists db (realm_redis_key realm) ''max_requests'' = Inr False
        \<and> fetch_registered_realms db = Inr S"
  then obtain h where
    res: "register_realm db realm m t =
     (Inr True, AList.update realms_key (RSet (insert realm S))
        (AList.update (realm_redis_key realm)
           (RHash (AList.update ''timespan'' (py_str_int t) (AList.update ''max_requests'' (py_str_int m) h))) db))"
    using register_realm_absent [of db realm S m t] by (auto simp: fetch_registered_realms_def)
  show "fst (register_realm db realm m t) = Inr True"
    by (simp add: res)
  show "realm_max_requests (snd (register_realm db realm m t)) realm = Inr m"
    unfolding realm_max_requests_def res snd_conv
    by (rule realm_field_written
          [where h = "AList.update ''timespan'' (py_str_int t) (AList.update ''max_requests'' (py_str_int m) h)"])
       (simp_all add: update_conv')
  show "realm_timespan (snd (register_realm db realm m t)) realm = Inr t"
    unfolding realm_timespan_def res snd_conv
    by (rule realm_field_written
          [where h = "AList.update ''timespan'' (py_str_int t) (AList.update ''max_requests'' (py_str_int m) h)"])
       (simp_all add: update_conv')
  show "fetch_registered_realms (snd (register_realm db realm m t)) = Inr (insert realm S)"
    by (simp add: res fetch_registered_realms_def smembers_def update_conv')
  show "\<forall>k. k \<noteq> realm_redis_key realm \<and> k \<noteq> realms_key \<longrightarrow>
            map_of (snd (register_realm db realm m t)) k = map_of db k"
    by (simp add: res update_conv')
qed

theorem register_realm_only_if_absent_witness:
  "hexists [] (realm_redis_key ''A'') ''max_requests'' = Inr False
   \<and> fetch_registered_realms [] = Inr {}
   \<and> register_realm [] ''A'' 100 300 =
       (Inr True, [(realm_redis_key ''A'', RHash [(''max_requests'', ''100''), (''timespan'', ''300'')]),
                   (realms_key, RSet {''A''})])
   \<and> realm_max_requests (snd (register_realm [] ''A'' 100 300)) ''A'' = Inr 100
   \<and> hexists [(realm_redis_key ''A'', RHash [(''max_requests'', ''100''), (''timespan'', ''300'')]),
               (realms_key, RSet {''A''})] (realm_redis_key ''A'') ''max_requests'' = Inr True
   \<and> register_realm [(realm_redis_key ''A'', RHash [(''max_requests'', ''100''), (''timespan'', ''300'')]),
                      (realms_key, RSet {''A''})] ''A'' 999 999 =
       (Inr True, [(realm_redis_key ''A'', RHash [(''max_requests'', ''100''), (''timespan'', ''300'')]),
                   (realms_key, RSet {''A''})])"
proof -
  have absent: "hexists [] (realm_redis_key ''A'') ''max_requests'' = Inr False"
    by (simp add: hexists_def)
  have index: "fetch_registered_realms [] = Inr {}"
    by (simp add: fetch_registered_realms_def smembers_def)
  have first: "register_realm [] ''A'' 100 300 =
       (Inr True, [(realm_redis_key ''A'', RHash [(''max_requests'', ''100''), (''timespan'', ''300'')]),
                   (realms_key, RSet {''A''})])"
    by code_simp
  have present: "hexists [(realm_redis_key ''A'', RHash [(''max_requests'', ''100''), (''timespan'', ''300'')]),
               (realms_key, RSet {''A''})] (realm_redis_key ''A'') ''max_requests'' = Inr True"
    by (simp add: hexists_def)
  show ?thesis
    using absent index first present
      register_realm_only_if_absent [of "[]" "''A''" 100 300 "{}"]
      register_realm_only_if_absent
        [of "[(realm_redis_key ''A'', RHash [(''max_requests'', ''100''), (''timespan'', ''300'')]),
              (realms_key, RSet {''A''})]" "''A''" 999 999 "{''A''}"]
    by simp
qed

section \<open>Reading a realm's definition\<close>

text \<open>
  In an empty store the realm \<open>A\<close> has no definition. Reading its \<open>max_requests\<close> or
  \<open>timespan\<close> raises the dictionary's \<open>KeyError\<close> for the missing field, which is not
  the error the driver raises for a realm that has not been registered.
\<close>

theorem realm_max_requests_unknown_counterexample:
  "realm_max_requests [] ''A'' = Inl (KeyError ''max_requests'')
   \<and> realm_timespan [] ''A'' = Inl (KeyError ''timespan'')
   \<and> realm_max_requests [] ''A'' \<noteq> Inl (realm_not_registered ''A'')"
  by (simp add: realm_max_requests_def realm_timespan_def realm_field_def fetch_realm_info_def
      hgetall_def realm_not_registered_def)

text \<open>
  C8, as amended. Reading \<open>max_requests\<close> or \<open>timespan\<close> of a realm that has no
  definition in the store fails with a \<open>KeyError\<close> naming the field; and when the
  definition holds the decimal text of an integer in that field, as \<open>register_realm\<close>
  and \<open>update_realm\<close> write it, the read returns that integer.
\<close>

theorem realm_definition_read:
  "(map_of db (realm_redis_key realm) = None \<longrightarrow>
      realm_max_requests db realm = Inl (KeyError ''max_requests'')
      \<and> realm_timespan db realm = Inl (KeyError ''timespan''))
   \<and> (stored_field db realm ''max_requests'' = Some (py_str_int m) \<longrightarrow>
      realm_max_requests db realm = Inr m)
   \<and> (stored_field db realm ''timespan'' = Some (py_str_int t) \<longrightarrow>
      realm_timespan db realm = Inr t)"
  by (auto simp: realm_max_requests_def realm_timespan_def realm_field_def fetch_realm_info_def
      hgetall_def stored_field_def py_int_py_str_int split: option.splits rvalue.splits)

theorem realm_definition_read_witness:
  "map_of [] (realm_redis_key ''A'') = None
   \<and> realm_max_requests [] ''A'' = Inl (KeyError ''max_requests'')
   \<and> stored_field [(realm_redis_key ''A'', RHash [(''max_requests'', ''100''), (''timespan'', ''300'')])]
        ''A'' ''max_requests'' = Some (py_str_int 100)
   \<and> stored_field [(realm_redis_key ''A'', RHash [(''max_requests'', ''100''), (''timespan'', ''300'')])]
        ''A'' ''timespan'' = Some (py_str_int 300)
   \<and> realm_max_requests [(realm_redis_key ''A'', RHash [(''max_requests'', ''100''), (''timespan'', ''300'')])]
        ''A'' = Inr 100
   \<and> realm_timespan [(realm_redis_key ''A'', RHash [(''max_requests'', ''100''), (''timespan'', ''300'')])]
        ''A'' = Inr 300"
proof -
  have m: "stored_field [(realm_redis_key ''A'', RHash [(''max_requests'', ''100''), (''timespan'', ''300'')])]
        ''A'' ''max_requests'' = Some (py_str_int 100)"
    by code_simp
  have t: "stored_field [(realm_redis_key ''A'', RHash [(''max_requests'', ''100''), (''timespan'', ''300'')])]
        ''A'' ''timespan'' = Some (py_str_int 300)"
    by code_simp
  show ?thesis
    using m t
      realm_definition_read [of "[]" "''A''" 0 0]
      realm_definition_read
        [of "[(realm_redis_key ''A'', RHash [(''max_requests'', ''100''), (''timespan'', ''300'')])]" "''A''" 100 300]
    by simp
qed

section \<open>Loading the configuration\<close>

text \<open>
  C9. A configuration file that is present and complete passes every check of
  \<open>load_config\<close>, and the function then ends without returning the configuration: the
  caller receives \<open>None\<close>, and construction fails on the first subscript into it. Only
  the absence of the file yields a configuration (the default one).
\<close>

theorem load_config_returns_nothing:
  "load_config (Document (YMap [(''redis'', YMap [(''host'', YStr ''10.0.0.5''), (''port'', YInt 6380),
                                                  (''database'', YInt 2)]),
                                (''safety_threshold'', YInt 3)])) = Inr YNull
   \<and> init (Document (YMap [(''redis'', YMap [(''host'', YStr ''10.0.0.5''), (''port'', YInt 6380),
                                              (''database'', YInt 2)]),
                            (''safety_threshold'', YInt 3)])) True True = Inl TypeError
   \<and> load_config NoFile = Inr default_config"
  by (simp add: load_config_def init_def check_safety_threshold_def expected_redis_keys_def)


section \<open>Unknown realms\<close>

text \<open>
  C6. When some requested realm is not a member of the index, \<open>webdriver_get\<close> fails,
  waiting or not, with the error that names a requested realm that is not registered, and
  the world is exactly what it was: no lease, no call. Neither the safety threshold nor
  any realm's count or definition enters: the check comes before any headroom is read.
\<close>

theorem webdriver_get_unknown_realm:
  assumes "fetch_registered_realms (redis w) = Inr registered"
    and "\<not> set realms \<subseteq> registered"
  shows "\<exists>realm. realm \<in> set realms \<and> realm \<notin> registered
     \<and> webdriver_get elapse uuid4 thr get_func realms wait w = Some (Inl (realm_not_registered realm), w)"
proof -
  from assms(2) obtain realm where "find (\<lambda>realm. realm \<notin> registered) realms = Some realm"
    by (cases "find (\<lambda>realm. realm \<notin> registered) realms") (auto simp: find_None_iff)
  moreover from this have "realm \<in> set realms \<and> realm \<notin> registered"
    by (auto simp: find_Some_iff)
  ultimately show ?thesis
    using assms(1) by (auto simp: webdriver_get_def)
qed

theorem webdriver_get_unknown_realm_witness:
  "fetch_registered_realms (redis example_world) = Inr {''A'', ''B'', ''C''}
   \<and> webdriver_get (expire_after 1) example_uuid4 0 example_get_func [''B'', ''Z''] True example_world
       = Some (Inl (realm_not_registered ''Z''), example_world)
   \<and> webdriver_get (expire_after 1) example_uuid4 0 example_get_func [''B'', ''Z''] False example_world
       = Some (Inl (realm_not_registered ''Z''), example_world)"
proof -
  have index: "fetch_registered_realms (redis example_world) = Inr {''A'', ''B'', ''C''}"
    by code_simp
  have unknown: "\<not> set [''B'', ''Z''] \<subseteq> {''A'', ''B'', ''C''}"
    by simp
  have only: "realm = ''Z''" if "realm \<in> set [''B'', ''Z'']" "realm \<notin> {''A'', ''B'', ''C''}" for realm
    using that by auto
  from webdriver_get_unknown_realm [OF index unknown, of "expire_after 1" example_uuid4 0 example_get_func True]
  have waiting: "webdriver_get (expire_after 1) example_uuid4 0 example_get_func [''B'', ''Z''] True example_world
       = Some (Inl (realm_not_registered ''Z''), example_world)"
    using only by blast
  from webdriver_get_unknown_realm [OF index unknown, of "expire_after 1" example_uuid4 0 example_get_func False]
  have failing: "webdriver_get (expire_after 1) example_uuid4 0 example_get_func [''B'', ''Z''] False example_world
       = Some (Inl (realm_not_registered ''Z''), example_world)"
    using only by blast
  show ?thesis
    using index waiting failing by simp
qed

section \<open>Waiting\<close>






section \<open>Unregistering a realm\<close>

text \<open>
  A pattern made of literal characters and a final \<open>*\<close> selects the keys that start
  with those characters. For a realm whose name has no pattern character,
  \<open>unregister_realm\<close> therefore removes the definition, the index entry and every
  lease of the realm.
\<close>

lemma glob_literal:
  "\<forall>c \<in> set lit. \<not> glob_special c \<Longrightarrow> glob (lit @ p) s = (\<exists>s'. s = lit @ s' \<and> glob p s')"
proof (induction lit arbitrary: s)
  case Nil
  then show ?case by simp
next
  case (Cons c lit)
  then show ?case
    by (cases s) (auto simp: glob_special_def)
qed

lemma glob_star: "glob ''*'' s"
  by (induction s) auto

lemma stringmatch_request_pattern:
  assumes "\<forall>c \<in> set realm. \<not> glob_special c"
  shows "stringmatch (request_pattern realm) k = prefix (redis_prefix @ '':REQUEST:'' @ realm @ '':'') k"
proof -
  let ?lit = "redis_prefix @ '':REQUEST:'' @ realm @ '':''"
  have lit: "\<forall>c \<in> set ?lit. \<not> glob_special c"
    using assms by (auto simp: redis_prefix_def glob_special_def)
  have pat: "request_pattern realm = ?lit @ ''*''"
    by (simp add: request_pattern_def)
  have "glob (?lit @ ''*'') k = prefix ?lit k"
    unfolding glob_literal [OF lit] by (auto simp: glob_star prefix_def)
  moreover have "k = [] \<Longrightarrow> \<not> prefix ?lit k"
    by (simp add: redis_prefix_def)
  ultimately show ?thesis
    unfolding stringmatch_def pat by (auto simp: redis_prefix_def)
qed

lemma map_of_foldl_delete_key:
  "map_of (foldl delete_key db ks) k = (if k \<in> set ks then None else map_of db k)"
  by (induction ks arbitrary: db) (auto simp: delete_key_def delete_conv')

lemma map_of_srem_other:
  "srem db name member = Inr db1 \<Longrightarrow> k \<noteq> name \<Longrightarrow> map_of db1 k = map_of db k"
  by (auto simp: srem_def update_conv' delete_conv' split: option.splits rvalue.splits if_splits)

lemma srem_removes:
  "srem db name member = Inr db1 \<Longrightarrow> smembers db name = Inr S \<Longrightarrow> smembers db1 name = Inr (S - {member})"
  by (auto simp: srem_def smembers_def update_conv' delete_conv' split: option.splits rvalue.splits if_splits)

lemma unregister_realm_plain_name:
  assumes plain: "\<forall>c \<in> set realm. \<not> glob_special c"
    and index: "fetch_registered_realms db = Inr S"
  shows "fst (unregister_realm db realm) = Inr True
    \<and> map_of (snd (unregister_realm db realm)) (realm_redis_key realm) = None
    \<and> fetch_registered_realms (snd (unregister_realm db realm)) = Inr (S - {realm})
    \<and> (\<forall>u. map_of (snd (unregister_realm db realm)) (request_key realm u) = None)"
proof -
  let ?db1 = "delete_key db (realm_redis_key realm)"
  have idx1: "smembers ?db1 realms_key = Inr S"
    using index by (simp add: fetch_registered_realms_def smembers_def delete_key_def delete_conv')
  then obtain db2 where db2: "srem ?db1 realms_key realm = Inr db2"
    by (auto simp: srem_def smembers_def split: option.splits rvalue.splits)
  let ?ks = "keys db2 (request_pattern realm)"
  have res: "unregister_realm db realm = (Inr True, foldl delete_key db2 ?ks)"
    by (simp add: unregister_realm_def db2)
  have not_lease: "\<not> stringmatch (request_pattern realm) k" if "k = realm_redis_key realm \<or> k = realms_key" for k
    using that unfolding stringmatch_request_pattern [OF plain]
    by (auto simp: realm_redis_key_def realms_key_def redis_prefix_def prefix_def)
  have a: "map_of (foldl delete_key db2 ?ks) (realm_redis_key realm) = None"
    using map_of_srem_other [OF db2, of "realm_redis_key realm"]
    by (simp add: map_of_foldl_delete_key delete_key_def delete_conv')
  have "map_of (foldl delete_key db2 ?ks) realms_key = map_of db2 realms_key"
    using not_lease [of realms_key] by (simp add: map_of_foldl_delete_key keys_def)
  then have b: "smembers (foldl delete_key db2 ?ks) realms_key = Inr (S - {realm})"
    using srem_removes [OF db2 idx1] by (simp add: smembers_def)
  have c: "map_of (foldl delete_key db2 ?ks) (request_key realm u) = None" for u
  proof (cases "map_of db2 (request_key realm u)")
    case None
    then show ?thesis by (simp add: map_of_foldl_delete_key)
  next
    case (Some v)
    then have "request_key realm u \<in> set (map fst db2)"
      by (metis domI dom_map_of_conv_image_fst set_map)
    moreover have "stringmatch (request_pattern realm) (request_key realm u)"
      unfolding stringmatch_request_pattern [OF plain] by (simp add: request_key_def prefix_def)
    ultimately have "request_key realm u \<in> set ?ks"
      by (simp add: keys_def)
    then show ?thesis by (simp add: map_of_foldl_delete_key)
  qed
  show ?thesis
    using a b c by (simp add: res fetch_registered_realms_def)
qed

text \<open>
  C4. The realm \<open>[x]\<close> is registered and one request is admitted for it, which writes
  its lease. Unregistering \<open>[x]\<close> then removes the definition and the index entry and
  leaves that lease in the store: the realm's name, put into the key pattern as it is,
  reads as a character class and selects none of the realm's own leases. And
  unregistering the name \<open>a\<close>, which was never registered, is not without effect: it
  deletes the lease of the registered realm \<open>a:b\<close>.
\<close>

theorem unregister_realm_leaves_leases:
  "register_realm [] ''[x]'' 10 300 =
     (Inr True, [(realm_redis_key ''[x]'', RHash [(''max_requests'', ''10''), (''timespan'', ''300'')]),
                 (realms_key, RSet {''[x]''})])
   \<and> perform_webdriver_get example_uuid4 0 example_get_func [''[x]'']
        \<lparr>redis = [(realm_redis_key ''[x]'', RHash [(''max_requests'', ''10''), (''timespan'', ''300'')]),
                  (realms_key, RSet {''[x]''})],
         uuids_drawn = 0, get_calls = 0, seconds_slept = 0\<rparr> =
     (Inr 0,
        \<lparr>redis = [(realm_redis_key ''[x]'', RHash [(''max_requests'', ''10''), (''timespan'', ''300'')]),
                  (realms_key, RSet {''[x]''}),
                  (request_key ''[x]'' ''u0'', RString ''u0'' 300)],
         uuids_drawn = 1, get_calls = 1, seconds_slept = 0\<rparr>)
   \<and> unregister_realm
        [(realm_redis_key ''[x]'', RHash [(''max_requests'', ''10''), (''timespan'', ''300'')]),
         (realms_key, RSet {''[x]''}),
         (request_key ''[x]'' ''u0'', RString ''u0'' 300)] ''[x]'' =
     (Inr True, [(request_key ''[x]'' ''u0'', RString ''u0'' 300)])
   \<and> unregister_realm
        [(realm_redis_key ''a:b'', RHash [(''max_requests'', ''10''), (''timespan'', ''300'')]),
         (realms_key, RSet {''a:b''}),
         (request_key ''a:b'' ''u0'', RString ''u0'' 300)] ''a'' =
     (Inr True, [(realm_redis_key ''a:b'', RHash [(''max_requests'', ''10''), (''timespan'', ''300'')]),
                 (realms_key, RSet {''a:b''})])"
  by code_simp

section \<open>Admission\<close>

text \<open>
  What \<open>perform_webdriver_get\<close> does with the answers of its own check
  \<open>can_perform_get\<close>: when the check fails for some requested realm, the request is
  refused with the world unchanged and the message lists the realms the check failed for;
  when it passes for all of them (and their timespans are positive), one lease per
  requested realm is written and the gated call is made once.
\<close>

lemma validate_proxy_lambda: "validate_get_func (proxy_lambda c) = Inr ()"
  by code_simp

lemma rate_limited_realms_filter:
  "\<forall>realm \<in> set realms. \<exists>ok. can_perform_get db thr realm = Inr ok \<Longrightarrow>
   rate_limited_realms db thr acc realms =
     Inr (acc @ filter (\<lambda>realm. can_perform_get db thr realm = Inr False) realms)"
proof (induction realms arbitrary: acc)
  case Nil
  then show ?case by simp
next
  case (Cons realm realms)
  then obtain ok where ok: "can_perform_get db thr realm = Inr ok" by auto
  have "rate_limited_realms db thr acc (realm # realms) =
      rate_limited_realms db thr (if ok then acc else acc @ [realm]) realms"
    by (simp add: ok)
  also have "\<dots> = Inr ((if ok then acc else acc @ [realm])
      @ filter (\<lambda>realm. can_perform_get db thr realm = Inr False) realms)"
    using Cons by simp
  finally show ?case
    using ok by auto
qed

lemma perform_webdriver_get_refused:
  assumes "validate_get_func get_func = Inr ()"
    and "\<forall>realm \<in> set realms. \<exists>ok. can_perform_get (redis w) thr realm = Inr ok"
    and "\<exists>realm \<in> set realms. can_perform_get (redis w) thr realm = Inr False"
  shows "perform_webdriver_get uuid4 thr get_func realms w =
     (Inl (SeleniumRespectfulRateLimitedError
            (rate_limited_message
               (filter (\<lambda>realm. can_perform_get (redis w) thr realm = Inr False) realms))),
      w)"
proof -
  let ?sat = "filter (\<lambda>realm. can_perform_get (redis w) thr realm = Inr False) realms"
  have "?sat \<noteq> []"
    using assms(3) by (auto simp: filter_empty_conv)
  then obtain r rs where "?sat = r # rs"
    by (cases ?sat) auto
  moreover have "rate_limited_realms (redis w) thr [] realms = Inr ?sat"
    using rate_limited_realms_filter [OF assms(2), of "[]"] by simp
  ultimately show ?thesis
    by (simp add: perform_webdriver_get_def assms(1))
qed

lemma length_new_leases [simp]: "length (new_leases uuid4 ts n realms) = length realms"
  by (induction realms arbitrary: n) auto

lemma realm_field_update_other:
  "k \<noteq> realm_redis_key realm \<Longrightarrow> realm_field (AList.update k v db) realm field = realm_field db realm field"
  by (simp add: realm_field_def fetch_realm_info_def hgetall_def update_conv')

lemma issue_leases_writes:
  "\<forall>realm \<in> set realms. realm_timespan (redis w) realm = Inr (ts realm) \<and> 0 < ts realm \<Longrightarrow>
   issue_leases uuid4 realms w =
     (Inr (), w\<lparr>redis := foldl (\<lambda>db (k, v). AList.update k v db) (redis w)
                            (new_leases uuid4 ts (uuids_drawn w) realms),
               uuids_drawn := uuids_drawn w + length realms\<rparr>)"
proof (induction realms arbitrary: w)
  case Nil
  then show ?case by simp
next
  case (Cons realm realms)
  let ?k = "request_key realm (uuid4 (uuids_drawn w))"
  let ?db = "AList.update ?k (RString (uuid4 (uuids_drawn w)) (ts realm)) (redis w)"
  let ?w = "w\<lparr>uuids_drawn := Suc (uuids_drawn w), redis := ?db\<rparr>"
  have "\<forall>r \<in> set realms. realm_timespan (redis ?w) r = Inr (ts r) \<and> 0 < ts r"
    using Cons.prems by (simp add: realm_timespan_def realm_field_update_other)
  from Cons.IH [OF this]
  show ?case
    using Cons.prems by (simp add: setex_def Let_def)
qed

lemma perform_webdriver_get_admitted:
  assumes "validate_get_func get_func = Inr ()"
    and "\<forall>realm \<in> set realms. can_perform_get (redis w) thr realm = Inr True"
    and "\<forall>realm \<in> set realms. realm_timespan (redis w) realm = Inr (ts realm) \<and> 0 < ts realm"
  shows "perform_webdriver_get uuid4 thr get_func realms w =
      (call get_func (get_calls w),
       w\<lparr>redis := foldl (\<lambda>db (k, v). AList.update k v db) (redis w)
                      (new_leases uuid4 ts (uuids_drawn w) realms),
         uuids_drawn := uuids_drawn w + length realms,
         get_calls := Suc (get_calls w)\<rparr>)"
proof -
  have "\<forall>realm \<in> set realms. \<exists>ok. can_perform_get (redis w) thr realm = Inr ok"
    using assms(2) by auto
  from rate_limited_realms_filter [OF this, of "[]"]
  have "rate_limited_realms (redis w) thr [] realms = Inr []"
    using assms(2) by (auto simp: filter_empty_conv)
  then show ?thesis
    using issue_leases_writes [OF assms(3), of uuid4]
    by (simp add: perform_webdriver_get_def assms(1))
qed

text \<open>
  The driver's count is a scan for the pattern made from the realm's name. It is the
  realm's active count when the name has no pattern character and every key that starts
  with the realm's lease prefix is a lease of that realm.
\<close>

lemma requests_in_timespan_counts_leases:
  assumes plain: "\<forall>c \<in> set realm. \<not> glob_special c"
    and nonempty: "db \<noteq> []"
    and own: "\<forall>kv \<in> set db. prefix (request_prefix realm) (fst kv) \<longrightarrow> is_lease_of realm kv"
  shows "requests_in_timespan db realm = Inr (active_count db realm)"
proof -
  have "filter (stringmatch (request_pattern realm)) (map fst db)
      = map fst (filter (is_lease_of realm) db)"
    unfolding filter_map
  proof (rule arg_cong [where f = "map fst"], rule filter_cong [OF refl])
    fix kv assume "kv \<in> set db"
    then show "(stringmatch (request_pattern realm) \<circ> fst) kv = is_lease_of realm kv"
      using own
      by (cases kv; cases "snd kv")
         (auto simp: stringmatch_request_pattern [OF plain] request_prefix_def is_lease_of_def)
  qed
  then show ?thesis
    using nonempty
    by (simp add: requests_in_timespan_def redis_keys_in_db_def info_db_keys_def scan_def
        active_count_def)
qed

text \<open>
  C1. The realms \<open>a\<close> (one request allowed) and \<open>a:b\<close> are registered, and one
  request is admitted for \<open>a:b\<close>. Realm \<open>a\<close> then has no lease of its own: its active
  count is 0 and its headroom 1. A request for \<open>a\<close> is refused all the same, as
  rate-limited on \<open>a\<close>, with no lease written and the gated call not made: the driver's
  scan for the leases of \<open>a\<close> also counts the lease of \<open>a:b\<close>.
\<close>

theorem perform_webdriver_get_denies_with_headroom:
  "register_realms [] [(''a'', 1, 300), (''a:b'', 10, 300)] =
     (Inr True,
      [(realm_redis_key ''a'', RHash [(''max_requests'', ''1''), (''timespan'', ''300'')]),
       (realms_key, RSet {''a'', ''a:b''}),
       (realm_redis_key ''a:b'', RHash [(''max_requests'', ''10''), (''timespan'', ''300'')])])
   \<and> selenium_webdriver_proxy_get (expire_after 1) example_uuid4 0 (\<lambda>n. Inr n) [''a:b''] False
        \<lparr>redis =
           [(realm_redis_key ''a'', RHash [(''max_requests'', ''1''), (''timespan'', ''300'')]),
            (realms_key, RSet {''a'', ''a:b''}),
            (realm_redis_key ''a:b'', RHash [(''max_requests'', ''10''), (''timespan'', ''300'')])],
         uuids_drawn = 0, get_calls = 0, seconds_slept = 0\<rparr> =
     Some (Inr 0,
        \<lparr>redis =
           [(realm_redis_key ''a'', RHash [(''max_requests'', ''1''), (''timespan'', ''300'')]),
            (realms_key, RSet {''a'', ''a:b''}),
            (realm_redis_key ''a:b'', RHash [(''max_requests'', ''10''), (''timespan'', ''300'')]),
            (request_key ''a:b'' ''u0'', RString ''u0'' 300)],
         uuids_drawn = 1, get_calls = 1, seconds_slept = 0\<rparr>)
   \<and> active_count
        [(realm_redis_key ''a'', RHash [(''max_requests'', ''1''), (''timespan'', ''300'')]),
         (realms_key, RSet {''a'', ''a:b''}),
         (realm_redis_key ''a:b'', RHash [(''max_requests'', ''10''), (''timespan'', ''300'')]),
         (request_key ''a:b'' ''u0'', RString ''u0'' 300)] ''a'' = 0
   \<and> headroom
        [(realm_redis_key ''a'', RHash [(''max_requests'', ''1''), (''timespan'', ''300'')]),
         (realms_key, RSet {''a'', ''a:b''}),
         (realm_redis_key ''a:b'', RHash [(''max_requests'', ''10''), (''timespan'', ''300'')]),
         (request_key ''a:b'' ''u0'', RString ''u0'' 300)] 0 ''a'' = Some 1
   \<and> requests_in_timespan
        [(realm_redis_key ''a'', RHash [(''max_requests'', ''1''), (''timespan'', ''300'')]),
         (realms_key, RSet {''a'', ''a:b''}),
         (realm_redis_key ''a:b'', RHash [(''max_requests'', ''10''), (''timespan'', ''300'')]),
         (request_key ''a:b'' ''u0'', RString ''u0'' 300)] ''a'' = Inr 1
   \<and> selenium_webdriver_proxy_get (expire_after 1) example_uuid4 0 (\<lambda>n. Inr n) [''a''] False
        \<lparr>redis =
           [(realm_redis_key ''a'', RHash [(''max_requests'', ''1''), (''timespan'', ''300'')]),
            (realms_key, RSet {''a'', ''a:b''}),
            (realm_redis_key ''a:b'', RHash [(''max_requests'', ''10''), (''timespan'', ''300'')]),
            (request_key ''a:b'' ''u0'', RString ''u0'' 300)],
         uuids_drawn = 1, get_calls = 1, seconds_slept = 0\<rparr> =
     Some (Inl (SeleniumRespectfulRateLimitedError ''Currently rate-limited on Realm(s): a''),
        \<lparr>redis =
           [(realm_redis_key ''a'', RHash [(''max_requests'', ''1''), (''timespan'', ''300'')]),
            (realms_key, RSet {''a'', ''a:b''}),
            (realm_redis_key ''a:b'', RHash [(''max_requests'', ''10''), (''timespan'', ''300'')]),
            (request_key ''a:b'' ''u0'', RString ''u0'' 300)],
         uuids_drawn = 1, get_calls = 1, seconds_slept = 0\<rparr>)"
  by code_simp

text \<open>
  C2. The realm \<open>[x]\<close> allows one request, and that request is admitted. The realm then
  has one live lease and no headroom left. A second request for \<open>[x]\<close> is granted all
  the same: a second lease is written and the gated call is made again. The driver's scan
  counts no lease for \<open>[x]\<close>, whose name reads as a character class in the pattern.
\<close>

theorem perform_webdriver_get_grants_without_headroom:
  "register_realm [] ''[x]'' 1 300 =
     (Inr True,
      [(realm_redis_key ''[x]'', RHash [(''max_requests'', ''1''), (''timespan'', ''300'')]),
       (realms_key, RSet {''[x]''})])
   \<and> selenium_webdriver_proxy_get (expire_after 1) example_uuid4 0 (\<lambda>n. Inr n) [''[x]''] False
        \<lparr>redis =
           [(realm_redis_key ''[x]'', RHash [(''max_requests'', ''1''), (''timespan'', ''300'')]),
            (realms_key, RSet {''[x]''})],
         uuids_drawn = 0, get_calls = 0, seconds_slept = 0\<rparr> =
     Some (Inr 0,
        \<lparr>redis =
           [(realm_redis_key ''[x]'', RHash [(''max_requests'', ''1''), (''timespan'', ''300'')]),
            (realms_key, RSet {''[x]''}),
            (request_key ''[x]'' ''u0'', RString ''u0'' 300)],
         uuids_drawn = 1, get_calls = 1, seconds_slept = 0\<rparr>)
   \<and> active_count
        [(realm_redis_key ''[x]'', RHash [(''max_requests'', ''1''), (''timespan'', ''300'')]),
         (realms_key, RSet {''[x]''}),
         (request_key ''[x]'' ''u0'', RString ''u0'' 300)] ''[x]'' = 1
   \<and> headroom
        [(realm_redis_key ''[x]'', RHash [(''max_requests'', ''1''), (''timespan'', ''300'')]),
         (realms_key, RSet {''[x]''}),
         (request_key ''[x]'' ''u0'', RString ''u0'' 300)] 0 ''[x]'' = Some 0
   \<and> requests_in_timespan
        [(realm_redis_key ''[x]'', RHash [(''max_requests'', ''1''), (''timespan'', ''300'')]),
         (realms_key, RSet {''[x]''}),
         (request_key ''[x]'' ''u0'', RString ''u0'' 300)] ''[x]'' = Inr 0
   \<and> selenium_webdriver_proxy_get (expire_after 1) example_uuid4 0 (\<lambda>n. Inr n) [''[x]''] False
        \<lparr>redis =
           [(realm_redis_key ''[x]'', RHash [(''max_requests'', ''1''), (''timespan'', ''300'')]),
            (realms_key, RSet {''[x]''}),
            (request_key ''[x]'' ''u0'', RString ''u0'' 300)],
         uuids_drawn = 1, get_calls = 1, seconds_slept = 0\<rparr> =
     Some (Inr 1,
        \<lparr>redis =
           [(realm_redis_key ''[x]'', RHash [(''max_requests'', ''1''), (''timespan'', ''300'')]),
            (realms_key, RSet {''[x]''}),
            (request_key ''[x]'' ''u0'', RString ''u0'' 300),
            (request_key ''[x]'' ''u1'', RString ''u1'' 300)],
         uuids_drawn = 2, get_calls = 2, seconds_slept = 0\<rparr>)"
  by code_simp

end
